theory Spec2Isabelle
  imports Main "HOL-Library.Sublist" "HOL-Library.Multiset"
begin

section \<open>Records of a collection\<close>

text \<open>
  An article, project or event object as the admin panel builds it from its form
  (\<open>saveNews\<close>, \<open>saveProject\<close>, \<open>saveEvent\<close>) and as the public loader reads it.
  Only the fields the program branches on are separate:
  \<^item> \<open>item_id\<close> is the \<open>id\<close> string;
  \<^item> \<open>date\<close> is the time value of \<open>new Date(x.date)\<close>, \<open>None\<close> when that is NaN;
  \<^item> \<open>featured\<close> is the truthiness of \<open>x.featured\<close>;
  \<^item> \<open>published\<close> is \<open>None\<close> when the field is absent (the loader tests
    \<open>x.published !== false\<close>).
  The remaining display fields (category, image, excerpt, location, ...) are the
  name/value pairs of \<open>details\<close>.
\<close>

record item =
  item_id :: string
  title :: string
  date :: "int option"
  featured :: bool
  published :: "bool option"
  details :: "(string \<times> string) list"

section \<open>Collection operations\<close>

text \<open>\<open>Array.prototype.findIndex\<close>: the first index whose element satisfies the test, else -1.\<close>

fun findIndex :: "('a \<Rightarrow> bool) \<Rightarrow> 'a list \<Rightarrow> int" where
  "findIndex P [] = - 1"
| "findIndex P (x # xs) =
     (if P x then 0 else (let i = findIndex P xs in if i < 0 then - 1 else i + 1))"

text \<open>
  The add-or-replace step of \<open>saveNews\<close> (and of \<open>saveProject\<close>, \<open>saveEvent\<close>):
  \<^verbatim>\<open>
    const existingIndex = articles.findIndex(a => a.id === id);
    if (existingIndex >= 0) { articles[existingIndex] = article; }
    else { articles.unshift(article); }
  \<close>
  as a function from the old contents of the array to its new contents.
\<close>

definition upsert :: "item list \<Rightarrow> item \<Rightarrow> item list" where
  "upsert articles article =
     (let existingIndex = findIndex (\<lambda>a. item_id a = item_id article) articles
      in if existingIndex \<ge> 0 then articles[nat existingIndex := article]
         else article # articles)"

text \<open>
  The removal step of \<open>executeDelete\<close>: \<open>articles.filter(a => a.id !== id)\<close>,
  which builds a new array.
\<close>

definition remove_by_id :: "item list \<Rightarrow> string \<Rightarrow> item list" where
  "remove_by_id articles i = filter (\<lambda>a. item_id a \<noteq> i) articles"

section \<open>Values of the admin panel\<close>

text \<open>\<open>state.github\<close>: the credentials every request is built from.\<close>

record credentials =
  username :: string
  repo :: string
  token :: string
  branch :: string

text \<open>
  The site configuration object. Every key may be absent after \<open>JSON.parse\<close>;
  keys the panel never reads are the pairs of \<open>cfg_other\<close> and \<open>hero_other\<close>.
\<close>

record colors =
  primary :: "string option"
  primaryLight :: "string option"
  primaryDark :: "string option"
  secondary :: "string option"
  accent :: "string option"
  accentLight :: "string option"

record hero =
  badge :: "string option"
  hero_title :: "string option"
  subtitle :: "string option"
  hero_other :: "(string \<times> string) list"

record contact =
  email :: string
  phone :: string
  address :: string

record social =
  facebook :: string
  twitter :: string
  instagram :: string
  linkedin :: string

record config =
  siteName :: "string option"
  siteTagline :: "string option"
  siteDescription :: "string option"
  cfg_colors :: "colors option"
  cfg_hero :: "hero option"
  stats :: "(string \<times> string) list option"
  cfg_contact :: "contact option"
  cfg_social :: "social option"
  cfg_other :: "(string \<times> string) list"

text \<open>
  A parsed JSON document, seen through the keys the program reads: the three array
  keys and the settings keys.
\<close>

record document =
  doc_articles :: "item list option"
  doc_projects :: "item list option"
  doc_events :: "item list option"
  doc_config :: config

text \<open>An entry of the \<open>images\<close> directory listing.\<close>

record image =
  img_path :: string
  img_name :: string
  img_sha :: string

text \<open>
  Arrays and configuration objects are JavaScript objects: the state holds references
  to them, and an assignment through one reference is seen through every other. They
  live in two stores, addressed by their index.
\<close>

type_synonym addr = nat

text \<open>
  \<open>state.content.news\<close> and its siblings are \<open>null\<close> or \<open>{ data, sha }\<close>. For a
  collection, \<open>data\<close> is read only through its array key, so \<open>data\<close> holds the
  reference to that array (\<open>None\<close>: the key is absent); for the site configuration
  it holds the reference to the configuration object.
\<close>

record 'd entry =
  data :: 'd
  sha :: "string option"

datatype js_error = Error string | TypeError | SyntaxError

datatype sync_status = Synced | Loading | Saving | Uploading | SyncError | Pending

text \<open>\<open>showToast(prefix + error.message, 'error')\<close> keeps the prefix and the error apart.\<close>

datatype toast = ToastSuccess string | ToastError string js_error

datatype screen = LoginScreen | Dashboard

datatype payload = Collection string "item list" | Settings config

datatype http_method = GET | PUT | DELETE

record request =
  rq_method :: http_method
  rq_url :: string
  rq_authorization :: string
  rq_message :: string
  rq_content :: "payload option"
  rq_sha :: "string option"
  rq_branch :: string

text \<open>
  What \<open>await fetch(...)\<close> gives: the promise rejects (a \<open>TypeError\<close>), or a
  response with a status and a JSON body (\<open>None\<close>: \<open>response.json()\<close> rejects).
\<close>

datatype 'b reply = Rejected | Response nat "'b option"

definition ok :: "nat \<Rightarrow> bool" where
  "ok st = (200 \<le> st \<and> st \<le> 299)"

text \<open>
  Body of a file read: \<open>fb_content\<close> is \<open>JSON.parse(atob(data.content))\<close>
  (\<open>None\<close>: decoding or parsing throws; the console line records either exception
  as \<open>SyntaxError\<close>), \<open>fb_sha\<close> is \<open>data.sha\<close>.
\<close>

record file_body =
  fb_content :: "document option"
  fb_sha :: "string option"

text \<open>
  Body of a write: \<open>wb_message\<close> is \<open>message\<close>, \<open>wb_content\<close> is the \<open>sha\<close>
  of the \<open>content\<close> object (\<open>None\<close>: there is no \<open>content\<close> object).
\<close>

record write_body =
  wb_message :: "string option"
  wb_content :: "string option option"

text \<open>
  The \<open>state\<close> object of the admin panel, with \<open>state.content\<close> flattened, and
  with what the operations leave outside it:
  \<^item> \<open>arrays\<close> and \<open>objects\<close> are the two stores of the references above;
  \<^item> \<open>localStorage\<close> is the item \<open>sote_admin_auth\<close>;
  \<^item> \<open>screen\<close>, \<open>loginError\<close>, \<open>syncStatus\<close> and \<open>toast\<close> are the page elements the
    operations write to (\<open>toast\<close> is the last toast shown);
  \<^item> \<open>console\<close> collects the \<open>console.error\<close> lines;
  \<^item> \<open>requests\<close> collects every call of \<open>fetch\<close>, in the order made.
\<close>

record state =
  github :: credentials
  siteConfig :: "addr entry option"
  news :: "addr option entry option"
  projects :: "addr option entry option"
  events :: "addr option entry option"
  images :: "image list"
  arrays :: "item list list"
  objects :: "config list"
  localStorage :: "credentials option"
  screen :: screen
  loginError :: "js_error option"
  syncStatus :: sync_status
  toast :: "toast option"
  console :: "(string \<times> js_error) list"
  requests :: "request list"

section \<open>Small JavaScript helpers\<close>

text \<open>\<open>x || d\<close> on a string that may be absent: absent and empty are both falsy.\<close>

definition or_default :: "string option \<Rightarrow> string \<Rightarrow> string" where
  "or_default x d = (case x of None \<Rightarrow> d | Some v \<Rightarrow> if v = [] then d else v)"

text \<open>A number inside a template literal: its decimal digits.\<close>

definition digit :: "nat \<Rightarrow> char" where
  "digit d = ''0123456789'' ! d"

fun string_of_nat :: "nat \<Rightarrow> string" where
  "string_of_nat n =
     (if n < 10 then [digit n] else string_of_nat (n div 10) @ [digit (n mod 10)])"

declare string_of_nat.simps [simp del]

text \<open>
  A \<open>string\<close> holds the UTF-8 bytes of the JavaScript string. \<open>white_space\<close> lists
  what \<open>String.prototype.trim\<close> strips, each as its byte sequence: the white space
  TAB, VT, FF, SP, NBSP (U+00A0), ZWNBSP (U+FEFF) and the space separators U+1680,
  U+2000 to U+200A, U+202F, U+205F, U+3000, and the line terminators LF, CR, U+2028,
  U+2029.
\<close>

definition white_space :: "string list" where
  "white_space =
     [[CHR 0x09], [CHR 0x0A], [CHR 0x0B], [CHR 0x0C], [CHR 0x0D], [CHR 0x20],
      [CHR 0xC2, CHR 0xA0],
      [CHR 0xE1, CHR 0x9A, CHR 0x80],
      [CHR 0xE2, CHR 0x80, CHR 0x80], [CHR 0xE2, CHR 0x80, CHR 0x81],
      [CHR 0xE2, CHR 0x80, CHR 0x82], [CHR 0xE2, CHR 0x80, CHR 0x83],
      [CHR 0xE2, CHR 0x80, CHR 0x84], [CHR 0xE2, CHR 0x80, CHR 0x85],
      [CHR 0xE2, CHR 0x80, CHR 0x86], [CHR 0xE2, CHR 0x80, CHR 0x87],
      [CHR 0xE2, CHR 0x80, CHR 0x88], [CHR 0xE2, CHR 0x80, CHR 0x89],
      [CHR 0xE2, CHR 0x80, CHR 0x8A],
      [CHR 0xE2, CHR 0x80, CHR 0xA8], [CHR 0xE2, CHR 0x80, CHR 0xA9],
      [CHR 0xE2, CHR 0x80, CHR 0xAF],
      [CHR 0xE2, CHR 0x81, CHR 0x9F],
      [CHR 0xE3, CHR 0x80, CHR 0x80],
      [CHR 0xEF, CHR 0xBB, CHR 0xBF]]"

text \<open>\<open>strip ws v\<close> removes from the front of \<open>v\<close> every leading sequence of \<open>ws\<close>.\<close>

function strip :: "string list \<Rightarrow> string \<Rightarrow> string" where
  "strip ws v =
     (case find (\<lambda>w. w \<noteq> [] \<and> prefix w v) ws of
        None \<Rightarrow> v
      | Some w \<Rightarrow> strip ws (drop (length w) v))"
  by pat_completeness auto
termination
proof (relation "measure (\<lambda>(ws, v). length v)")
  show "wf (measure (\<lambda>(ws, v). length v))" by simp
next
  fix ws :: "string list" and v w :: string
  assume "find (\<lambda>w. w \<noteq> [] \<and> prefix w v) ws = Some w"
  then have "w \<noteq> []" and "prefix w v"
    by (auto simp: find_Some_iff)
  then have "0 < length w" and "length w \<le> length v"
    by (auto simp: prefix_length_le)
  then have "length v - length w < length v"
    by arith
  then show "((ws, drop (length w) v), (ws, v)) \<in> measure (\<lambda>(ws, v). length v)"
    by simp
qed

declare strip.simps [simp del]

text \<open>
  \<open>String.prototype.trim\<close>: strip at the front, then at the end. A sequence of
  \<open>white_space\<close> at the end of well-formed UTF-8 is a whole character, so the end is
  stripped on the reversed bytes with the reversed sequences.
\<close>

definition trim :: "string \<Rightarrow> string" where
  "trim v = rev (strip (map rev white_space) (rev (strip white_space v)))"

definition lower_char :: "char \<Rightarrow> char" where
  "lower_char c =
     (case map_of (zip ''ABCDEFGHIJKLMNOPQRSTUVWXYZ'' ''abcdefghijklmnopqrstuvwxyz'') c of
        None \<Rightarrow> c
      | Some l \<Rightarrow> l)"

text \<open>\<open>/\.(jpg|jpeg|png|gif|webp|svg)$/i.test(f.name)\<close>\<close>

definition is_image_name :: "string \<Rightarrow> bool" where
  "is_image_name name =
     (\<exists>ext \<in> set [''jpg'', ''jpeg'', ''png'', ''gif'', ''webp'', ''svg''].
        suffix (CHR ''.'' # ext) (map lower_char name))"

definition new_array :: "item list \<Rightarrow> state \<Rightarrow> addr \<times> state" where
  "new_array xs s = (length (arrays s), s\<lparr>arrays := arrays s @ [xs]\<rparr>)"

definition new_object :: "config \<Rightarrow> state \<Rightarrow> addr \<times> state" where
  "new_object c s = (length (objects s), s\<lparr>objects := objects s @ [c]\<rparr>)"

definition updateSyncStatus :: "sync_status \<Rightarrow> state \<Rightarrow> state" where
  "updateSyncStatus status s = s\<lparr>syncStatus := status\<rparr>"

definition showToast :: "toast \<Rightarrow> state \<Rightarrow> state" where
  "showToast t s = s\<lparr>toast := Some t\<rparr>"

definition send :: "request \<Rightarrow> state \<Rightarrow> state" where
  "send rq s = s\<lparr>requests := requests s @ [rq]\<rparr>"

definition contents_url :: "credentials \<Rightarrow> string \<Rightarrow> string" where
  "contents_url gh path =
     ''https://api.github.com/repos/'' @ username gh @ ''/'' @ repo gh @ ''/contents/'' @ path"

definition authorization :: "credentials \<Rightarrow> string" where
  "authorization gh = ''token '' @ token gh"

section \<open>Remote store operations\<close>

text \<open>
  Every \<open>fetch\<close> of the source is a \<open>send\<close>, which records the request, followed
  by a case analysis of the reply the network gives; the reply is an argument.

  \<open>fetchContent\<close>: a 404 returns \<open>null\<close> inside the \<open>try\<close>; any other failure
  throws inside the same \<open>try\<close>, whose handler logs it and returns \<open>null\<close> too.
  \<open>fetchContent_try\<close> is the body of the \<open>try\<close>.
\<close>

definition fetch_request :: "credentials \<Rightarrow> string \<Rightarrow> request" where
  "fetch_request gh path =
     \<lparr>rq_method = GET, rq_url = contents_url gh path @ ''?ref='' @ branch gh,
      rq_authorization = authorization gh, rq_message = [], rq_content = None,
      rq_sha = None, rq_branch = []\<rparr>"

definition fetchContent_try ::
  "string \<Rightarrow> file_body reply \<Rightarrow> js_error + (document \<times> string option) option" where
  "fetchContent_try path r =
     (case r of
        Rejected \<Rightarrow> Inl TypeError
      | Response st b \<Rightarrow>
          if \<not> ok st then
            (if st = 404 then Inr None else Inl (Error (''Failed to fetch '' @ path)))
          else
            (case b of
               None \<Rightarrow> Inl SyntaxError
             | Some d \<Rightarrow>
                 (case fb_content d of
                    None \<Rightarrow> Inl SyntaxError
                  | Some parsed \<Rightarrow> Inr (Some (parsed, fb_sha d)))))"

definition fetchContent ::
  "string \<Rightarrow> file_body reply \<Rightarrow> state \<Rightarrow> (document \<times> string option) option \<times> state" where
  "fetchContent path r s =
     (let s1 = send (fetch_request (github s) path) s
      in case fetchContent_try path r of
           Inr v \<Rightarrow> (v, s1)
         | Inl error \<Rightarrow>
             (None, s1\<lparr>console := console s1 @ [(''Error fetching '' @ path @ '':'', error)]\<rparr>))"

definition save_request :: "credentials \<Rightarrow> string \<Rightarrow> payload \<Rightarrow> string option \<Rightarrow> request" where
  "save_request gh path content sh =
     \<lparr>rq_method = PUT, rq_url = contents_url gh path,
      rq_authorization = authorization gh,
      rq_message = ''Update '' @ path @ '' via SOTE Admin'', rq_content = Some content,
      rq_sha = sh, rq_branch = branch gh\<rparr>"

text \<open>\<open>saveContent\<close> has no handler of its own: \<open>Inl\<close> is the error it throws.\<close>

definition saveContent ::
  "string \<Rightarrow> payload \<Rightarrow> string option \<Rightarrow> write_body reply \<Rightarrow> state
     \<Rightarrow> (js_error + write_body) \<times> state" where
  "saveContent path content sh r s =
     (let s1 = send (save_request (github s) path content sh) s
      in case r of
           Rejected \<Rightarrow> (Inl TypeError, s1)
         | Response st b \<Rightarrow>
             if \<not> ok st then
               (case b of
                  None \<Rightarrow> (Inl SyntaxError, s1)
                | Some error \<Rightarrow>
                    (Inl (Error (or_default (wb_message error) ''Failed to save content'')), s1))
             else
               (case b of
                  None \<Rightarrow> (Inl SyntaxError, s1)
                | Some result \<Rightarrow> (Inr result, s1)))"

definition list_request :: "credentials \<Rightarrow> request" where
  "list_request gh =
     \<lparr>rq_method = GET, rq_url = contents_url gh ''images'' @ ''?ref='' @ branch gh,
      rq_authorization = authorization gh, rq_message = [], rq_content = None,
      rq_sha = None, rq_branch = []\<rparr>"

definition loadImages :: "image list reply \<Rightarrow> state \<Rightarrow> state" where
  "loadImages r s =
     (let s1 = send (list_request (github s)) s
      in case r of
           Rejected \<Rightarrow> s1\<lparr>console := console s1 @ [(''Error loading images:'', TypeError)]\<rparr>
         | Response st b \<Rightarrow>
             if ok st then
               (case b of
                  None \<Rightarrow> s1\<lparr>console := console s1 @ [(''Error loading images:'', SyntaxError)]\<rparr>
                | Some files \<Rightarrow> s1\<lparr>images := filter (\<lambda>f. is_image_name (img_name f)) files\<rparr>)
             else s1)"


text \<open>The handler shared by the mutating operations: a toast and the error status.\<close>

definition report :: "string \<Rightarrow> js_error \<Rightarrow> state \<Rightarrow> state" where
  "report label error s = updateSyncStatus SyncError (showToast (ToastError label error) s)"

definition succeed :: "string \<Rightarrow> state \<Rightarrow> state" where
  "succeed message s = updateSyncStatus Synced (showToast (ToastSuccess message) s)"


section \<open>Loading\<close>

text \<open>
  \<open>JSON.parse\<close> builds fresh objects: storing a fetched document allocates its array
  (or its configuration object) and keeps the reference.
\<close>

definition store_collection ::
  "(document \<Rightarrow> item list option) \<Rightarrow> (document \<times> string option) option \<Rightarrow> state
     \<Rightarrow> addr option entry option \<times> state" where
  "store_collection key fetched s =
     (case fetched of
        None \<Rightarrow> (None, s)
      | Some (d, sh) \<Rightarrow>
          (case key d of
             None \<Rightarrow> (Some \<lparr>data = None, sha = sh\<rparr>, s)
           | Some xs \<Rightarrow>
               (let (a, s1) = new_array xs s in (Some \<lparr>data = Some a, sha = sh\<rparr>, s1))))"

definition store_config ::
  "(document \<times> string option) option \<Rightarrow> state \<Rightarrow> addr entry option \<times> state" where
  "store_config fetched s =
     (case fetched of
        None \<Rightarrow> (None, s)
      | Some (d, sh) \<Rightarrow>
          (let (a, s1) = new_object (doc_config d) s in (Some \<lparr>data = a, sha = sh\<rparr>, s1)))"

record load_replies =
  r_config :: "file_body reply"
  r_news :: "file_body reply"
  r_projects :: "file_body reply"
  r_events :: "file_body reply"
  r_images :: "image list reply"

text \<open>
  \<open>loadAllContent\<close>. The four reads are started in the order written, so the
  requests are recorded in that order; the model also takes their completions in that
  order (the order of the console lines is the only thing that depends on it). The
  rendering calls touch the page only. With the page's elements in place and documents of
  the shape above nothing in the \<open>try\<close> throws, so its handler has no branch here.
\<close>

definition loadAllContent :: "load_replies \<Rightarrow> state \<Rightarrow> state" where
  "loadAllContent rs s =
     (let s0 = updateSyncStatus Loading s;
          (c, s1) = fetchContent ''content/site-config.json'' (r_config rs) s0;
          (n, s2) = fetchContent ''content/news.json'' (r_news rs) s1;
          (p, s3) = fetchContent ''content/projects.json'' (r_projects rs) s2;
          (e, s4) = fetchContent ''content/events.json'' (r_events rs) s3;
          (ce, s5) = store_config c s4;
          (ne, s6) = store_collection doc_articles n s5;
          (pe, s7) = store_collection doc_projects p s6;
          (ee, s8) = store_collection doc_events e s7;
          s9 = s8\<lparr>siteConfig := ce, news := ne, projects := pe, events := ee\<rparr>
      in updateSyncStatus Synced (loadImages (r_images rs) s9))"

definition showDashboard :: "load_replies \<Rightarrow> state \<Rightarrow> state" where
  "showDashboard rs s = loadAllContent rs (s\<lparr>screen := Dashboard\<rparr>)"

section \<open>Authentication\<close>

definition login_request :: "string \<Rightarrow> string \<Rightarrow> string \<Rightarrow> request" where
  "login_request u r t =
     \<lparr>rq_method = GET, rq_url = ''https://api.github.com/repos/'' @ u @ ''/'' @ r,
      rq_authorization = ''token '' @ t, rq_message = [], rq_content = None,
      rq_sha = None, rq_branch = []\<rparr>"

text \<open>
  \<open>handleLogin\<close>, with the four form inputs as typed. \<open>showDashboard\<close> is started
  and not awaited; the model runs it to its end.
\<close>

definition handleLogin ::
  "string \<Rightarrow> string \<Rightarrow> string \<Rightarrow> string \<Rightarrow> unit reply \<Rightarrow> load_replies \<Rightarrow> state \<Rightarrow> state" where
  "handleLogin u r t b probe rs s =
     (let username' = trim u; repo' = trim r; token' = trim t;
          branch' = (if trim b = [] then ''main'' else trim b);
          s1 = send (login_request username' repo' token') (s\<lparr>loginError := None\<rparr>)
      in case probe of
           Rejected \<Rightarrow> s1\<lparr>loginError := Some TypeError\<rparr>
         | Response st body \<Rightarrow>
             if \<not> ok st then
               s1\<lparr>loginError := Some (Error ''Invalid credentials or repository not found'')\<rparr>
             else
               (let gh = \<lparr>username = username', repo = repo', token = token', branch = branch'\<rparr>
                in showDashboard rs (s1\<lparr>github := gh, localStorage := Some gh\<rparr>)))"

definition logout :: "state \<Rightarrow> state" where
  "logout s =
     s\<lparr>localStorage := None,
       github := \<lparr>username = [], repo = [], token = [], branch = ''main''\<rparr>,
       screen := LoginScreen\<rparr>"

text \<open>The \<open>DOMContentLoaded\<close> handler: saved credentials open the dashboard at once.\<close>

definition startup :: "load_replies \<Rightarrow> state \<Rightarrow> state" where
  "startup rs s =
     (case localStorage s of
        Some auth \<Rightarrow> showDashboard rs (s\<lparr>github := auth\<rparr>)
      | None \<Rightarrow> s)"

section \<open>Saving and deleting records\<close>

text \<open>
  \<open>saveNews\<close>, \<open>saveProject\<close> and \<open>saveEvent\<close> are one body up to the state
  field, the path, the array key, the id prefix and the messages; \<open>save_record\<close> is
  that body and \<open>kind\<close> selects the differences.
\<close>

datatype kind = News | Project | Event

fun entry_of :: "kind \<Rightarrow> state \<Rightarrow> addr option entry option" where
  "entry_of News s = news s"
| "entry_of Project s = projects s"
| "entry_of Event s = events s"

fun set_entry :: "kind \<Rightarrow> addr option entry option \<Rightarrow> state \<Rightarrow> state" where
  "set_entry News e s = s\<lparr>news := e\<rparr>"
| "set_entry Project e s = s\<lparr>projects := e\<rparr>"
| "set_entry Event e s = s\<lparr>events := e\<rparr>"

fun doc_path :: "kind \<Rightarrow> string" where
  "doc_path News = ''content/news.json''"
| "doc_path Project = ''content/projects.json''"
| "doc_path Event = ''content/events.json''"

fun doc_key :: "kind \<Rightarrow> string" where
  "doc_key News = ''articles''"
| "doc_key Project = ''projects''"
| "doc_key Event = ''events''"

fun id_prefix :: "kind \<Rightarrow> string" where
  "id_prefix News = ''news-''"
| "id_prefix Project = ''proj-''"
| "id_prefix Event = ''evt-''"

fun saved_message :: "kind \<Rightarrow> string" where
  "saved_message News = ''Article saved successfully!''"
| "saved_message Project = ''Project saved successfully!''"
| "saved_message Event = ''Event saved successfully!''"

fun save_error_label :: "kind \<Rightarrow> string" where
  "save_error_label News = ''Error saving article: ''"
| "save_error_label Project = ''Error saving project: ''"
| "save_error_label Event = ''Error saving event: ''"

text \<open>
  \<open>formId\<close> is the value of the hidden id input, \<open>inputs\<close> the other inputs of the
  form as a record (its \<open>item_id\<close> is overwritten), \<open>now\<close> is \<open>Date.now()\<close>.

  \<open>state.content.news?.data?.articles || []\<close> is the cached array itself when there
  is one, and the assignment or \<open>unshift\<close> that follows writes into that array before
  the request is sent.
\<close>

definition save_record ::
  "kind \<Rightarrow> string \<Rightarrow> item \<Rightarrow> nat \<Rightarrow> write_body reply \<Rightarrow> state \<Rightarrow> state" where
  "save_record k formId inputs now r s =
     (let i = (if formId = [] then id_prefix k @ string_of_nat now else formId);
          article = inputs\<lparr>item_id := i\<rparr>;
          (a, s1) = (case entry_of k s of
                       None \<Rightarrow> new_array [] s
                     | Some e \<Rightarrow> (case data e of None \<Rightarrow> new_array [] s | Some a \<Rightarrow> (a, s)));
          s2 = s1\<lparr>arrays := (arrays s1)[a := upsert (arrays s1 ! a) article]\<rparr>;
          s3 = updateSyncStatus Saving s2;
          (res, s4) = saveContent (doc_path k) (Collection (doc_key k) (arrays s3 ! a))
                        (case entry_of k s of None \<Rightarrow> None | Some e \<Rightarrow> sha e) r s3
      in case res of
           Inl error \<Rightarrow> report (save_error_label k) error s4
         | Inr result \<Rightarrow>
             (case wb_content result of
                None \<Rightarrow> report (save_error_label k) TypeError s4
              | Some sh \<Rightarrow>
                  succeed (saved_message k)
                    (set_entry k (Some \<lparr>data = Some a, sha = sh\<rparr>) s4)))"

definition saveNews :: "string \<Rightarrow> item \<Rightarrow> nat \<Rightarrow> write_body reply \<Rightarrow> state \<Rightarrow> state" where
  "saveNews = save_record News"

definition saveProject :: "string \<Rightarrow> item \<Rightarrow> nat \<Rightarrow> write_body reply \<Rightarrow> state \<Rightarrow> state" where
  "saveProject = save_record Project"

definition saveEvent :: "string \<Rightarrow> item \<Rightarrow> nat \<Rightarrow> write_body reply \<Rightarrow> state \<Rightarrow> state" where
  "saveEvent = save_record Event"

text \<open>
  One branch of \<open>executeDelete\<close>: the error it throws, if any, and the state reached.
  Reading \<open>.data.articles\<close> of \<open>null\<close>, or \<open>.filter\<close> of a missing array, is a
  \<open>TypeError\<close>. \<open>filter\<close> allocates a new array.
\<close>

definition delete_from ::
  "kind \<Rightarrow> string \<Rightarrow> write_body reply \<Rightarrow> state \<Rightarrow> js_error option \<times> state" where
  "delete_from k i r s =
     (case entry_of k s of
        None \<Rightarrow> (Some TypeError, s)
      | Some e \<Rightarrow>
          (case data e of
             None \<Rightarrow> (Some TypeError, s)
           | Some a \<Rightarrow>
               (let xs = remove_by_id (arrays s ! a) i;
                    (b, s1) = new_array xs s;
                    (res, s2) = saveContent (doc_path k) (Collection (doc_key k) xs) (sha e) r s1
                in case res of
                     Inl error \<Rightarrow> (Some error, s2)
                   | Inr result \<Rightarrow>
                       (case wb_content result of
                          None \<Rightarrow> (Some TypeError, s2)
                        | Some sh \<Rightarrow>
                            (None, set_entry k (Some \<lparr>data = Some b, sha = sh\<rparr>) s2)))))"

text \<open>\<open>executeDelete\<close>, with the \<open>deleteContext\<close> that \<open>confirmDelete\<close> stored.\<close>

definition executeDelete :: "string \<Rightarrow> string \<Rightarrow> write_body reply \<Rightarrow> state \<Rightarrow> state" where
  "executeDelete type i r s =
     (let s0 = updateSyncStatus Saving s;
          (thrown, s1) =
            (if type = ''news'' then delete_from News i r s0
             else if type = ''project'' then delete_from Project i r s0
             else if type = ''event'' then delete_from Event i r s0
             else (None, s0))
      in case thrown of
           Some error \<Rightarrow> report ''Error deleting item: '' error s1
         | None \<Rightarrow> succeed ''Item deleted successfully!'' s1)"

section \<open>Saving the settings\<close>

record settings_form =
  f_siteName :: string
  f_siteTagline :: string
  f_siteDescription :: string
  f_colorPrimary :: string
  f_colorSecondary :: string
  f_colorAccent :: string
  f_heroBadge :: string
  f_heroTitle :: string
  f_heroSubtitle :: string
  f_stats :: "(string \<times> string) \<times> (string \<times> string) \<times> (string \<times> string)"
  f_contact :: contact
  f_social :: social

definition empty_config :: config where
  "empty_config =
     \<lparr>siteName = None, siteTagline = None, siteDescription = None, cfg_colors = None,
      cfg_hero = None, stats = None, cfg_contact = None, cfg_social = None, cfg_other = []\<rparr>"

definition old_color :: "config \<Rightarrow> (colors \<Rightarrow> string option) \<Rightarrow> string option" where
  "old_color c field = (case cfg_colors c of None \<Rightarrow> None | Some cs \<Rightarrow> field cs)"

text \<open>The assignments of \<open>saveSettings\<close> to the configuration object, in order.\<close>

definition gather_settings :: "settings_form \<Rightarrow> config \<Rightarrow> config" where
  "gather_settings f c =
     (let c1 = c\<lparr>siteName := Some (f_siteName f), siteTagline := Some (f_siteTagline f),
                siteDescription := Some (f_siteDescription f)\<rparr>;
          c2 = c1\<lparr>cfg_colors := Some
                 \<lparr>primary = Some (f_colorPrimary f),
                  primaryLight = Some (or_default (old_color c1 primaryLight) ''#2D7A5F''),
                  primaryDark = Some (or_default (old_color c1 primaryDark) ''#0F2E25''),
                  secondary = Some (f_colorSecondary f),
                  accent = Some (f_colorAccent f),
                  accentLight = Some (or_default (old_color c1 accentLight) ''#F4C77A'')\<rparr>\<rparr>;
          h = (case cfg_hero c2 of
                 None \<Rightarrow> \<lparr>badge = None, hero_title = None, subtitle = None, hero_other = []\<rparr>
               | Some h \<Rightarrow> h);
          c3 = c2\<lparr>cfg_hero := Some (h\<lparr>badge := Some (f_heroBadge f),
                                       hero_title := Some (f_heroTitle f),
                                       subtitle := Some (f_heroSubtitle f)\<rparr>)\<rparr>
      in c3\<lparr>stats := Some (case f_stats f of (x, y, z) \<Rightarrow> [x, y, z]),
            cfg_contact := Some (f_contact f),
            cfg_social := Some (f_social f)\<rparr>)"

text \<open>
  \<open>saveSettings\<close>: \<open>state.content.siteConfig?.data || {}\<close> is the cached object
  itself when there is one, and the assignments write into it before the request.
\<close>

definition saveSettings :: "settings_form \<Rightarrow> write_body reply \<Rightarrow> state \<Rightarrow> state" where
  "saveSettings f r s =
     (let (a, s1) = (case siteConfig s of
                       None \<Rightarrow> new_object empty_config s
                     | Some e \<Rightarrow> (data e, s));
          s2 = s1\<lparr>objects := (objects s1)[a := gather_settings f (objects s1 ! a)]\<rparr>;
          s3 = updateSyncStatus Saving s2;
          (res, s4) = saveContent ''content/site-config.json'' (Settings (objects s3 ! a))
                        (case siteConfig s of None \<Rightarrow> None | Some e \<Rightarrow> sha e) r s3
      in case res of
           Inl error \<Rightarrow> report ''Error saving settings: '' error s4
         | Inr result \<Rightarrow>
             (case wb_content result of
                None \<Rightarrow> report ''Error saving settings: '' TypeError s4
              | Some sh \<Rightarrow>
                  succeed ''Settings saved successfully!''
                    (s4\<lparr>siteConfig := Some \<lparr>data = a, sha = sh\<rparr>\<rparr>)))"

section \<open>What the cache holds\<close>

text \<open>
  The contents of a cache entry as a reader of \<open>state.content\<close> sees them: the
  references followed into the stores, paired with the revision.
\<close>

definition cached_collection :: "kind \<Rightarrow> state \<Rightarrow> (item list option \<times> string option) option" where
  "cached_collection k s =
     map_option (\<lambda>e. (map_option (\<lambda>a. arrays s ! a) (data e), sha e)) (entry_of k s)"

definition cached_config :: "state \<Rightarrow> (config \<times> string option) option" where
  "cached_config s = map_option (\<lambda>e. (objects s ! data e, sha e)) (siteConfig s)"

text \<open>Every reference held by the cache points into its store.\<close>

definition refs_valid :: "state \<Rightarrow> bool" where
  "refs_valid s =
     ((\<forall>k \<in> {News, Project, Event}.
         case entry_of k s of
           None \<Rightarrow> True
         | Some e \<Rightarrow> (case data e of None \<Rightarrow> True | Some a \<Rightarrow> a < length (arrays s))) \<and>
      (case siteConfig s of None \<Rightarrow> True | Some e \<Rightarrow> data e < length (objects s)))"

section \<open>The public content loader\<close>









section \<open>Concrete values\<close>

definition mk_item :: "string \<Rightarrow> string \<Rightarrow> int \<Rightarrow> item" where
  "mk_item i t d =
     \<lparr>item_id = i, title = t, date = Some d, featured = False, published = Some True,
      details = []\<rparr>"

definition no_credentials :: credentials where
  "no_credentials = \<lparr>username = [], repo = [], token = [], branch = ''main''\<rparr>"

definition some_credentials :: credentials where
  "some_credentials =
     \<lparr>username = ''sote'', repo = ''site'', token = ''t0k3n'', branch = ''main''\<rparr>"

text \<open>The state of a page that has just been opened, nobody logged in.\<close>

definition fresh_state :: state where
  "fresh_state =
     \<lparr>github = no_credentials, siteConfig = None, news = None, projects = None,
      events = None, images = [], arrays = [], objects = [], localStorage = None,
      screen = LoginScreen, loginError = None, syncStatus = Synced, toast = None,
      console = [], requests = []\<rparr>"

text \<open>
  A logged-in session whose news document \<open>{articles: [a1]}\<close> was read at revision
  \<open>abc\<close>.
\<close>

definition loaded_state :: state where
  "loaded_state =
     fresh_state\<lparr>github := some_credentials, localStorage := Some some_credentials,
                 screen := Dashboard,
                 news := Some \<lparr>data = Some 0, sha = Some ''abc''\<rparr>,
                 arrays := [[mk_item ''news-1'' ''Cleanup Day'' 100]]\<rparr>"

definition stale_reply :: "write_body reply" where
  "stale_reply = Response 409 (Some \<lparr>wb_message = None, wb_content = None\<rparr>)"

definition server_error_reply :: "write_body reply" where
  "server_error_reply = Response 500 (Some \<lparr>wb_message = None, wb_content = None\<rparr>)"

definition written_reply :: "string \<Rightarrow> write_body reply" where
  "written_reply sh = Response 200 (Some \<lparr>wb_message = None, wb_content = Some (Some sh)\<rparr>)"

definition missing :: "file_body reply" where
  "missing = Response 404 None"

definition found :: "document \<Rightarrow> string \<Rightarrow> file_body reply" where
  "found d sh = Response 200 (Some \<lparr>fb_content = Some d, fb_sha = Some sh\<rparr>)"

definition news_document :: "item list \<Rightarrow> document" where
  "news_document xs =
     \<lparr>doc_articles = Some xs, doc_projects = None, doc_events = None, doc_config = empty_config\<rparr>"



text \<open>The remote write did not go through: no response, or a response that is not ok.\<close>

definition write_failed :: "write_body reply \<Rightarrow> bool" where
  "write_failed r = (case r of Rejected \<Rightarrow> True | Response st b \<Rightarrow> \<not> ok st)"

definition failing_load :: load_replies where
  "failing_load =
     \<lparr>r_config = missing, r_news = Response 500 None,
      r_projects = found (news_document []) ''p1'', r_events = missing,
      r_images = Response 200 (Some [])\<rparr>"

definition all_missing :: load_replies where
  "all_missing =
     \<lparr>r_config = missing, r_news = missing, r_projects = missing, r_events = missing,
      r_images = Response 404 None\<rparr>"

definition example_form :: settings_form where
  "example_form =
     \<lparr>f_siteName = ''SOTE'', f_siteTagline = ''Soldiers of the Environment'',
      f_siteDescription = [], f_colorPrimary = ''#112233'', f_colorSecondary = ''#4A9C6D'',
      f_colorAccent = ''#E8A849'', f_heroBadge = [], f_heroTitle = [], f_heroSubtitle = [],
      f_stats = ((''10'', ''Projects''), (''20'', ''Events''), (''30'', ''Members'')),
      f_contact = \<lparr>email = [], phone = [], address = []\<rparr>,
      f_social = \<lparr>facebook = [], twitter = [], instagram = [], linkedin = []\<rparr>\<rparr>"


section \<open>Properties of the collection operations\<close>

lemma findIndex_ge_minus_one: "- 1 \<le> findIndex P xs"
  by (induction xs) (auto simp: Let_def)

lemma findIndex_neg_iff: "findIndex P xs < 0 \<longleftrightarrow> (\<forall>x \<in> set xs. \<not> P x)"
  by (induction xs) (auto simp: Let_def)

lemma findIndex_found:
  "0 \<le> findIndex P xs \<Longrightarrow>
     nat (findIndex P xs) < length xs \<and> P (xs ! nat (findIndex P xs)) \<and>
     (\<forall>j < nat (findIndex P xs). \<not> P (xs ! j))"
proof (induction xs)
  case Nil
  then show ?case by simp
next
  case (Cons x xs)
  show ?case
  proof (cases "P x")
    case True
    then show ?thesis by simp
  next
    case False
    with Cons.prems have nonneg: "0 \<le> findIndex P xs"
      by (simp add: Let_def split: if_splits)
    with False have step: "nat (findIndex P (x # xs)) = Suc (nat (findIndex P xs))"
      by (simp add: Let_def nat_add_distrib)
    from Cons.IH[OF nonneg] False show ?thesis
      unfolding step by (auto simp: less_Suc_eq_0_disj)
  qed
qed

text \<open>
  C2. If some record of \<open>S\<close> has the id of \<open>r\<close>, \<open>upsert S r\<close> puts \<open>r\<close> at the index
  of the first such record, keeps the length and leaves every other position as it was;
  if none has, \<open>upsert S r\<close> is \<open>r\<close> followed by \<open>S\<close>, one element longer.
\<close>

theorem upsert_replace_or_prepend:
  "((\<exists>x \<in> set S. item_id x = item_id r) \<longrightarrow>
      (\<exists>i < length S.
         item_id (S ! i) = item_id r \<and>
         (\<forall>j < i. item_id (S ! j) \<noteq> item_id r) \<and>
         upsert S r = S[i := r] \<and>
         length (upsert S r) = length S \<and>
         upsert S r ! i = r \<and>
         (\<forall>j < length S. j \<noteq> i \<longrightarrow> upsert S r ! j = S ! j))) \<and>
   ((\<forall>x \<in> set S. item_id x \<noteq> item_id r) \<longrightarrow>
      upsert S r = r # S \<and> length (upsert S r) = length S + 1 \<and> hd (upsert S r) = r)"
proof (rule conjI; rule impI)
  assume ex: "\<exists>x \<in> set S. item_id x = item_id r"
  let ?P = "\<lambda>a. item_id a = item_id r"
  let ?i = "nat (findIndex ?P S)"
  from ex have nonneg: "0 \<le> findIndex ?P S"
    using findIndex_neg_iff[of ?P S] by auto
  from findIndex_found[OF nonneg]
  have i: "?i < length S" "?P (S ! ?i)" "\<forall>j < ?i. \<not> ?P (S ! j)" by auto
  from nonneg have eq: "upsert S r = S[?i := r]"
    by (simp add: upsert_def)
  show "\<exists>i < length S.
         item_id (S ! i) = item_id r \<and>
         (\<forall>j < i. item_id (S ! j) \<noteq> item_id r) \<and>
         upsert S r = S[i := r] \<and>
         length (upsert S r) = length S \<and>
         upsert S r ! i = r \<and>
         (\<forall>j < length S. j \<noteq> i \<longrightarrow> upsert S r ! j = S ! j)"
    using i eq by (intro exI[of _ ?i]) simp
next
  assume none: "\<forall>x \<in> set S. item_id x \<noteq> item_id r"
  then have "findIndex (\<lambda>a. item_id a = item_id r) S < 0"
    by (simp add: findIndex_neg_iff)
  then show "upsert S r = r # S \<and> length (upsert S r) = length S + 1 \<and> hd (upsert S r) = r"
    by (simp add: upsert_def)
qed

theorem upsert_replace_or_prepend_witness:
  "upsert [mk_item ''a'' ''A'' 1, mk_item ''b'' ''B'' 2] (mk_item ''b'' ''B2'' 3)
     = [mk_item ''a'' ''A'' 1, mk_item ''b'' ''B2'' 3] \<and>
   upsert [mk_item ''a'' ''A'' 1, mk_item ''b'' ''B'' 2] (mk_item ''c'' ''C'' 3)
     = [mk_item ''c'' ''C'' 3, mk_item ''a'' ''A'' 1, mk_item ''b'' ''B'' 2]"
  using upsert_replace_or_prepend
          [of "[mk_item ''a'' ''A'' 1, mk_item ''b'' ''B'' 2]" "mk_item ''b'' ''B2'' 3"]
        upsert_replace_or_prepend
          [of "[mk_item ''a'' ''A'' 1, mk_item ''b'' ''B'' 2]" "mk_item ''c'' ''C'' 3"]
  by (simp add: mk_item_def upsert_def)

text \<open>
  C8. \<open>remove_by_id S i\<close> keeps exactly the records whose id is not \<open>i\<close>, in their
  order; it is a total function, and where no record has the id it returns \<open>S\<close>;
  removing twice is removing once.
\<close>

theorem remove_by_id_idempotent:
  "(\<forall>x \<in> set (remove_by_id S i). item_id x \<noteq> i) \<and>
   remove_by_id S i = filter (\<lambda>a. item_id a \<noteq> i) S \<and>
   ((\<forall>x \<in> set S. item_id x \<noteq> i) \<longrightarrow> remove_by_id S i = S) \<and>
   remove_by_id (remove_by_id S i) i = remove_by_id S i"
  by (auto simp: remove_by_id_def)

theorem remove_by_id_idempotent_witness:
  "remove_by_id [mk_item ''evt-9'' ''F'' 2] ''evt-5'' = [mk_item ''evt-9'' ''F'' 2] \<and>
   remove_by_id (remove_by_id [mk_item ''evt-5'' ''E'' 1, mk_item ''evt-9'' ''F'' 2] ''evt-5'')
       ''evt-5''
     = remove_by_id [mk_item ''evt-5'' ''E'' 1, mk_item ''evt-9'' ''F'' 2] ''evt-5''"
proof -
  have absent: "\<forall>x \<in> set [mk_item ''evt-9'' ''F'' 2]. item_id x \<noteq> ''evt-5''"
    by (simp add: mk_item_def)
  from remove_by_id_idempotent [of "[mk_item ''evt-9'' ''F'' 2]" "''evt-5''"] absent
  have "remove_by_id [mk_item ''evt-9'' ''F'' 2] ''evt-5'' = [mk_item ''evt-9'' ''F'' 2]"
    by blast
  moreover
  from remove_by_id_idempotent
         [of "[mk_item ''evt-5'' ''E'' 1, mk_item ''evt-9'' ''F'' 2]" "''evt-5''"]
  have "remove_by_id
          (remove_by_id [mk_item ''evt-5'' ''E'' 1, mk_item ''evt-9'' ''F'' 2] ''evt-5'')
          ''evt-5''
        = remove_by_id [mk_item ''evt-5'' ''E'' 1, mk_item ''evt-9'' ''F'' 2] ''evt-5''"
    by blast
  ultimately show ?thesis by blast
qed

text \<open>
  C9. If the ids of \<open>S\<close> are pairwise distinct, so are the ids of \<open>upsert S r\<close>:
  a record with the id of \<open>r\<close> is overwritten where it stands, and \<open>r\<close> is added
  only when no record has its id.
\<close>

theorem upsert_distinct_ids:
  assumes "distinct (map item_id S)"
  shows "distinct (map item_id (upsert S r))"
proof (cases "0 \<le> findIndex (\<lambda>a. item_id a = item_id r) S")
  case True
  let ?i = "nat (findIndex (\<lambda>a. item_id a = item_id r) S)"
  from findIndex_found[OF True]
  have i: "?i < length S" "item_id (S ! ?i) = item_id r" by auto
  have "map item_id (upsert S r) = (map item_id S)[?i := item_id r]"
    using True by (simp add: upsert_def map_update)
  also have "\<dots> = map item_id S"
    using i by (metis list_update_id nth_map)
  finally show ?thesis using assms by simp
next
  case False
  then have "findIndex (\<lambda>a. item_id a = item_id r) S < 0" by simp
  then have "\<forall>x \<in> set S. item_id x \<noteq> item_id r" by (simp add: findIndex_neg_iff)
  with False assms show ?thesis by (auto simp: upsert_def)
qed

theorem upsert_distinct_ids_witness:
  "distinct (map item_id [mk_item ''a'' ''A'' 1, mk_item ''b'' ''B'' 2]) \<and>
   distinct (map item_id (upsert [mk_item ''a'' ''A'' 1, mk_item ''b'' ''B'' 2]
                            (mk_item ''b'' ''B2'' 3)))"
proof -
  have d: "distinct (map item_id [mk_item ''a'' ''A'' 1, mk_item ''b'' ''B'' 2])"
    by (simp add: mk_item_def)
  from upsert_distinct_ids [OF d, of "mk_item ''b'' ''B2'' 3"] d show ?thesis by simp
qed

section \<open>Failed writes and the cache\<close>

lemmas state_defs = send_def report_def succeed_def updateSyncStatus_def showToast_def
  new_array_def new_object_def

lemma saveContent_failed:
  "write_failed r \<Longrightarrow> \<exists>e. fst (saveContent path c sh r s) = Inl e"
  by (auto simp: write_failed_def saveContent_def Let_def split: reply.splits option.splits)

lemma saveContent_state:
  "snd (saveContent path c sh r s) = send (save_request (github s) path c sh) s"
  by (simp add: saveContent_def Let_def split: reply.splits option.splits)

lemma entry_of_frame [simp]:
  "entry_of k (s\<lparr>requests := rq\<rparr>) = entry_of k s"
  "entry_of k (s\<lparr>syncStatus := st\<rparr>) = entry_of k s"
  "entry_of k (s\<lparr>toast := t\<rparr>) = entry_of k s"
  "entry_of k (s\<lparr>arrays := xs\<rparr>) = entry_of k s"
  by (cases k; simp)+

lemma cached_collection_frame [simp]:
  "cached_collection k (s\<lparr>requests := rq\<rparr>) = cached_collection k s"
  "cached_collection k (s\<lparr>syncStatus := st\<rparr>) = cached_collection k s"
  "cached_collection k (s\<lparr>toast := t\<rparr>) = cached_collection k s"
  by (simp_all add: cached_collection_def)

text \<open>
  A failed write in \<open>executeDelete\<close> leaves every collection of the cache as it was:
  the filtered array is a new one, and the entry is assigned only after the write.
\<close>

lemma delete_from_failed_cache:
  assumes "write_failed r" and "refs_valid s"
  shows "cached_collection k' (snd (delete_from k i r s)) = cached_collection k' s"
proof -
  obtain e where e: "\<And>c sh s'. fst (saveContent (doc_path k) c sh r s') = Inl (e c sh s')"
    using saveContent_failed[OF assms(1)] by metis
  have valid: "\<And>x a. entry_of k' s = Some x \<Longrightarrow> data x = Some a \<Longrightarrow> a < length (arrays s)"
    using assms(2) by (cases k') (auto simp: refs_valid_def)
  show ?thesis
    using valid
    by (auto simp: delete_from_def cached_collection_def Let_def case_prod_beta e
          saveContent_state state_defs nth_append
          split: option.splits intro!: map_option_cong)
qed

lemma executeDelete_failed_keeps_cache:
  assumes "write_failed r" and "refs_valid s"
  shows "cached_collection k (executeDelete type i r s) = cached_collection k s"
proof -
  have valid: "refs_valid (updateSyncStatus Saving s)"
    using assms(2) by (simp add: refs_valid_def updateSyncStatus_def split: option.splits)
  note d = delete_from_failed_cache[OF assms(1) valid, of k]
  show ?thesis
    by (simp add: executeDelete_def Let_def case_prod_beta report_def succeed_def
          updateSyncStatus_def showToast_def d[unfolded updateSyncStatus_def]
          split: option.splits)
qed

text \<open>
  A failed write in \<open>saveNews\<close>, \<open>saveProject\<close> or \<open>saveEvent\<close> on a document
  that was loaded leaves the old revision in the cache next to a body that already
  holds the record.
\<close>

lemma save_record_failed_writes_cache:
  assumes "write_failed r" and "entry_of k s = Some e" and "data e = Some a"
    and "a < length (arrays s)"
  shows "cached_collection k (save_record k formId inputs now r s) =
           Some (Some (upsert (arrays s ! a)
                   (inputs\<lparr>item_id := (if formId = [] then id_prefix k @ string_of_nat now
                                         else formId)\<rparr>)), sha e)"
proof -
  obtain err where err: "\<And>c sh s'. fst (saveContent (doc_path k) c sh r s') = Inl (err c sh s')"
    using saveContent_failed[OF assms(1)] by metis
  show ?thesis
    using assms(2-4)
    by (simp add: save_record_def Let_def case_prod_beta err saveContent_state state_defs
          cached_collection_def)
qed

text \<open>The same for \<open>saveSettings\<close> and the cached configuration object.\<close>

lemma saveSettings_failed_writes_cache:
  assumes "write_failed r" and "siteConfig s = Some e" and "data e < length (objects s)"
  shows "cached_config (saveSettings f r s) = Some (gather_settings f (objects s ! data e), sha e)"
proof -
  obtain err where
    err: "\<And>c sh s'. fst (saveContent ''content/site-config.json'' c sh r s') = Inl (err c sh s')"
    using saveContent_failed[OF assms(1)] by metis
  show ?thesis
    using assms(2,3)
    by (simp add: saveSettings_def Let_def case_prod_beta err saveContent_state state_defs
          cached_config_def)
qed

text \<open>
  C1. The cache entry of the affected document is unchanged after a failed write.
  This fails for \<open>saveNews\<close>: with \<open>{articles: [news-1]}\<close> cached at revision
  \<open>abc\<close>, saving a new article while the store answers 409 leaves the cache with the
  revision \<open>abc\<close> and the body \<open>[news-17, news-1]\<close>.
\<close>

theorem saveNews_failed_write_changes_cache:
  "cached_collection News loaded_state
     = Some (Some [mk_item ''news-1'' ''Cleanup Day'' 100], Some ''abc'') \<and>
   cached_collection News
       (saveNews [] (mk_item [] ''Tree Planting'' 200) 17 stale_reply loaded_state)
     = Some (Some [mk_item ''news-17'' ''Tree Planting'' 200,
                   mk_item ''news-1'' ''Cleanup Day'' 100], Some ''abc'') \<and>
   toast (saveNews [] (mk_item [] ''Tree Planting'' 200) 17 stale_reply loaded_state)
     = Some (ToastError ''Error saving article: '' (Error ''Failed to save content''))"
  by (simp add: save_record_def saveNews_def saveContent_def save_request_def state_defs
        cached_collection_def upsert_def ok_def or_default_def digit_def Let_def
        string_of_nat.simps loaded_state_def fresh_state_def stale_reply_def mk_item_def)

section \<open>How a rejected write is reported\<close>

lemma saveContent_rejected:
  "\<not> ok st \<Longrightarrow>
     saveContent path c sh (Response st b) s =
       (Inl (case b of
               None \<Rightarrow> SyntaxError
             | Some error \<Rightarrow> Error (or_default (wb_message error) ''Failed to save content'')),
        send (save_request (github s) path c sh) s)"
  by (cases b) (simp_all add: saveContent_def Let_def)

lemma save_record_rejected:
  assumes "\<not> ok st"
  shows "toast (save_record k formId inputs now (Response st b) s)
           = Some (ToastError (save_error_label k)
                 (case b of
                    None \<Rightarrow> SyntaxError
                  | Some error \<Rightarrow>
                      Error (or_default (wb_message error) ''Failed to save content'')))"
    and "syncStatus (save_record k formId inputs now (Response st b) s) = SyncError"
    and "map_option sha (entry_of k (save_record k formId inputs now (Response st b) s))
           = map_option sha (entry_of k s)"
  by (simp_all add: save_record_def Let_def case_prod_beta saveContent_rejected[OF assms]
        state_defs split: option.splits)

text \<open>
  C3, as the claim states it: a stale revision gives an outcome that can be told from a
  generic failure. The store's 409 and its 500, with the same body, give the same
  error.
\<close>

theorem saveContent_conflict_like_failure:
  "fst (saveContent ''content/news.json'' (Collection ''articles'' []) (Some ''abc'')
          (Response 409 (Some \<lparr>wb_message = None, wb_content = None\<rparr>)) loaded_state)
     = Inl (Error ''Failed to save content'') \<and>
   fst (saveContent ''content/news.json'' (Collection ''articles'' []) (Some ''abc'')
          (Response 500 (Some \<lparr>wb_message = None, wb_content = None\<rparr>)) loaded_state)
     = Inl (Error ''Failed to save content'')"
  by (simp add: saveContent_def ok_def or_default_def Let_def)

text \<open>
  C3, amended. A write answered with a status that is not ok, the 409 of a stale revision
  like any other, makes \<open>saveContent\<close> throw: a plain \<open>Error\<close> carrying the store's
  message, or \<open>Failed to save content\<close> when the body has none, and the \<open>SyntaxError\<close>
  of \<open>response.json()\<close> when the body cannot be read. The status is never looked at:
  two statuses that are not ok give the same result on the same body. The request
  carried the revision it was given; the save operation shows the error in a toast, sets
  the error status and keeps the cached revision.
\<close>

theorem rejected_write_outcome:
  "\<not> ok st \<longrightarrow>
     fst (saveContent path c sh (Response st b) s)
       = Inl (case b of
                None \<Rightarrow> SyntaxError
              | Some error \<Rightarrow> Error (or_default (wb_message error) ''Failed to save content'')) \<and>
     (\<not> ok st' \<longrightarrow>
        saveContent path c sh (Response st' b) s = saveContent path c sh (Response st b) s) \<and>
     requests (snd (saveContent path c sh (Response st b) s))
       = requests s @ [save_request (github s) path c sh] \<and>
     rq_sha (save_request (github s) path c sh) = sh \<and>
     toast (save_record k formId inputs now (Response st b) s)
       = Some (ToastError (save_error_label k)
                 (case b of
                    None \<Rightarrow> SyntaxError
                  | Some error \<Rightarrow>
                      Error (or_default (wb_message error) ''Failed to save content''))) \<and>
     syncStatus (save_record k formId inputs now (Response st b) s) = SyncError \<and>
     map_option sha (entry_of k (save_record k formId inputs now (Response st b) s))
       = map_option sha (entry_of k s)"
proof
  assume rejected: "\<not> ok st"
  have same: "\<not> ok st' \<longrightarrow>
        saveContent path c sh (Response st' b) s = saveContent path c sh (Response st b) s"
    using rejected by (simp add: saveContent_rejected)
  have sent: "requests (snd (saveContent path c sh (Response st b) s))
       = requests s @ [save_request (github s) path c sh]"
    "rq_sha (save_request (github s) path c sh) = sh"
    using rejected by (simp_all add: saveContent_rejected send_def save_request_def)
  have thrown: "fst (saveContent path c sh (Response st b) s)
       = Inl (case b of
                None \<Rightarrow> SyntaxError
              | Some error \<Rightarrow> Error (or_default (wb_message error) ''Failed to save content''))"
    using rejected by (simp add: saveContent_rejected)
  from thrown same sent save_record_rejected[OF rejected, of k formId inputs now b s]
  show "fst (saveContent path c sh (Response st b) s)
       = Inl (case b of
                None \<Rightarrow> SyntaxError
              | Some error \<Rightarrow> Error (or_default (wb_message error) ''Failed to save content'')) \<and>
     (\<not> ok st' \<longrightarrow>
        saveContent path c sh (Response st' b) s = saveContent path c sh (Response st b) s) \<and>
     requests (snd (saveContent path c sh (Response st b) s))
       = requests s @ [save_request (github s) path c sh] \<and>
     rq_sha (save_request (github s) path c sh) = sh \<and>
     toast (save_record k formId inputs now (Response st b) s)
       = Some (ToastError (save_error_label k)
                 (case b of
                    None \<Rightarrow> SyntaxError
                  | Some error \<Rightarrow>
                      Error (or_default (wb_message error) ''Failed to save content''))) \<and>
     syncStatus (save_record k formId inputs now (Response st b) s) = SyncError \<and>
     map_option sha (entry_of k (save_record k formId inputs now (Response st b) s))
       = map_option sha (entry_of k s)"
    by blast
qed

theorem rejected_write_outcome_witness:
  "\<not> ok 409 \<and> \<not> ok 502 \<and>
   fst (saveContent ''content/news.json'' (Collection ''articles'' []) (Some ''abc'')
          (Response 409 (Some \<lparr>wb_message = Some ''does not match'', wb_content = None\<rparr>))
          loaded_state)
     = Inl (Error ''does not match'') \<and>
   fst (saveContent ''content/news.json'' (Collection ''articles'' []) (Some ''abc'')
          (Response 502 None) loaded_state)
     = Inl SyntaxError \<and>
   saveContent ''content/news.json'' (Collection ''articles'' []) (Some ''abc'')
       (Response 409 None) loaded_state
     = saveContent ''content/news.json'' (Collection ''articles'' []) (Some ''abc'')
         (Response 502 None) loaded_state"
proof -
  have h: "\<not> ok 409" "\<not> ok 502" by (simp_all add: ok_def)
  from rejected_write_outcome
         [where st = 409 and path = "''content/news.json''" and c = "Collection ''articles'' []"
            and sh = "Some ''abc''" and s = loaded_state
            and b = "Some \<lparr>wb_message = Some ''does not match'', wb_content = None\<rparr>"] h
  have "fst (saveContent ''content/news.json'' (Collection ''articles'' []) (Some ''abc'')
          (Response 409 (Some \<lparr>wb_message = Some ''does not match'', wb_content = None\<rparr>))
          loaded_state)
     = Inl (case Some \<lparr>wb_message = Some ''does not match'', wb_content = None\<rparr> of
              None \<Rightarrow> SyntaxError
            | Some error \<Rightarrow> Error (or_default (wb_message error) ''Failed to save content''))"
    by blast
  then have a: "fst (saveContent ''content/news.json'' (Collection ''articles'' []) (Some ''abc'')
          (Response 409 (Some \<lparr>wb_message = Some ''does not match'', wb_content = None\<rparr>))
          loaded_state)
     = Inl (Error ''does not match'')"
    by (simp add: or_default_def)
  note at_502 = rejected_write_outcome
         [where st = 502 and st' = 409 and path = "''content/news.json''"
            and c = "Collection ''articles'' []" and sh = "Some ''abc''" and s = loaded_state
            and b = None]
  from at_502 h
  have "fst (saveContent ''content/news.json'' (Collection ''articles'' []) (Some ''abc'')
          (Response 502 None) loaded_state)
        = Inl (case None of
                 None \<Rightarrow> SyntaxError
               | Some error \<Rightarrow> Error (or_default (wb_message error) ''Failed to save content''))"
    by simp
  then have b: "fst (saveContent ''content/news.json'' (Collection ''articles'' []) (Some ''abc'')
          (Response 502 None) loaded_state) = Inl SyntaxError"
    by simp
  from at_502 h
  have c: "saveContent ''content/news.json'' (Collection ''articles'' []) (Some ''abc'')
       (Response 409 None) loaded_state
     = saveContent ''content/news.json'' (Collection ''articles'' []) (Some ''abc'')
         (Response 502 None) loaded_state"
    by blast
  from h a b c show ?thesis by blast
qed

section \<open>Credentials and the network\<close>



section \<open>Loading: what each read leaves in the cache\<close>

lemma fetchContent_fst:
  "fst (fetchContent p r s) = (case fetchContent_try p r of Inr v \<Rightarrow> v | Inl e \<Rightarrow> None)"
  by (simp add: fetchContent_def Let_def split: sum.splits)

lemma fetchContent_snd:
  "snd (fetchContent p r s) =
     s\<lparr>requests := requests s @ [fetch_request (github s) p],
       console := console s @ (case fetchContent_try p r of
                                 Inr v \<Rightarrow> []
                               | Inl e \<Rightarrow> [(''Error fetching '' @ p @ '':'', e)])\<rparr>"
  by (simp add: fetchContent_def send_def Let_def split: sum.splits)

lemma store_collection_eq:
  "store_collection key f s =
     (map_option (\<lambda>(d, sh). \<lparr>data = map_option (\<lambda>xs. length (arrays s)) (key d), sha = sh\<rparr>) f,
      s\<lparr>arrays := arrays s @ (case f of
                                None \<Rightarrow> []
                              | Some (d, sh) \<Rightarrow> (case key d of None \<Rightarrow> [] | Some xs \<Rightarrow> [xs]))\<rparr>)"
  by (simp add: store_collection_def new_array_def split: option.splits prod.splits)

lemma store_config_eq:
  "store_config f s =
     (map_option (\<lambda>(d, sh). \<lparr>data = length (objects s), sha = sh\<rparr>) f,
      s\<lparr>objects := objects s @ (case f of None \<Rightarrow> [] | Some (d, sh) \<Rightarrow> [doc_config d])\<rparr>)"
  by (simp add: store_config_def new_object_def split: option.splits prod.splits)

lemma loadImages_eq:
  "loadImages r s =
     s\<lparr>requests := requests s @ [list_request (github s)],
       images := (case r of
                    Rejected \<Rightarrow> images s
                  | Response st b \<Rightarrow>
                      (case b of
                         None \<Rightarrow> images s
                       | Some files \<Rightarrow>
                           if ok st then filter (\<lambda>f. is_image_name (img_name f)) files
                           else images s)),
       console := console s @ (case r of
                                 Rejected \<Rightarrow> [(''Error loading images:'', TypeError)]
                               | Response st b \<Rightarrow>
                                   (case b of
                                      None \<Rightarrow> if ok st then [(''Error loading images:'', SyntaxError)]
                                              else []
                                    | Some files \<Rightarrow> []))\<rparr>"
  by (simp add: loadImages_def send_def Let_def split: reply.splits option.splits)

lemma loadAllContent_status:
  "syncStatus (loadAllContent rs s) = Synced \<and> toast (loadAllContent rs s) = toast s \<and>
   github (loadAllContent rs s) = github s \<and>
   localStorage (loadAllContent rs s) = localStorage s \<and>
   screen (loadAllContent rs s) = screen s"
  by (simp add: loadAllContent_def Let_def case_prod_beta store_collection_eq store_config_eq
        loadImages_eq fetchContent_snd updateSyncStatus_def)

lemmas load_defs = loadAllContent_def Let_def case_prod_beta store_collection_eq
  store_config_eq loadImages_eq fetchContent_snd updateSyncStatus_def

lemma loadAllContent_news:
  "cached_collection News (loadAllContent rs s) =
     map_option (\<lambda>(d, sh). (doc_articles d, sh))
       (fst (fetchContent ''content/news.json'' (r_news rs) s))"
  by (simp add: load_defs cached_collection_def fetchContent_fst
        split: option.splits prod.splits sum.splits)

lemma loadAllContent_projects:
  "cached_collection Project (loadAllContent rs s) =
     map_option (\<lambda>(d, sh). (doc_projects d, sh))
       (fst (fetchContent ''content/projects.json'' (r_projects rs) s))"
  by (simp add: load_defs cached_collection_def fetchContent_fst nth_append
        split: option.splits prod.splits sum.splits)

lemma loadAllContent_events:
  "cached_collection Event (loadAllContent rs s) =
     map_option (\<lambda>(d, sh). (doc_events d, sh))
       (fst (fetchContent ''content/events.json'' (r_events rs) s))"
  by (simp add: load_defs cached_collection_def fetchContent_fst nth_append
        split: option.splits prod.splits sum.splits)

lemma loadAllContent_config:
  "cached_config (loadAllContent rs s) =
     map_option (\<lambda>(d, sh). (doc_config d, sh))
       (fst (fetchContent ''content/site-config.json'' (r_config rs) s))"
  by (simp add: load_defs cached_config_def fetchContent_fst
        split: option.splits prod.splits sum.splits)




section \<open>A document that does not exist yet\<close>

lemma loadAllContent_missing:
  "r_config rs = Response 404 b \<Longrightarrow> cached_config (loadAllContent rs s) = None"
  "r_news rs = Response 404 b \<Longrightarrow> cached_collection News (loadAllContent rs s) = None"
  "r_projects rs = Response 404 b \<Longrightarrow> cached_collection Project (loadAllContent rs s) = None"
  "r_events rs = Response 404 b \<Longrightarrow> cached_collection Event (loadAllContent rs s) = None"
  by (simp_all add: loadAllContent_config loadAllContent_news loadAllContent_projects
        loadAllContent_events fetchContent_fst fetchContent_try_def ok_def)

lemma save_record_created:
  assumes "entry_of k s = None" and "ok st" and "wb_content w = Some sh'"
  shows "cached_collection k (save_record k formId inputs now (Response st (Some w)) s)
           = Some (Some [inputs\<lparr>item_id := (if formId = [] then id_prefix k @ string_of_nat now
                                                else formId)\<rparr>], sh')"
    and "last (requests (save_record k formId inputs now (Response st (Some w)) s))
           = save_request (github s) (doc_path k)
               (Collection (doc_key k)
                  [inputs\<lparr>item_id := (if formId = [] then id_prefix k @ string_of_nat now
                                         else formId)\<rparr>]) None"
    and "toast (save_record k formId inputs now (Response st (Some w)) s)
           = Some (ToastSuccess (saved_message k))"
    and "syncStatus (save_record k formId inputs now (Response st (Some w)) s) = Synced"
  using assms
  by (cases k; simp add: save_record_def saveContent_def Let_def case_prod_beta state_defs
        cached_collection_def upsert_def)+

lemma saveSettings_created:
  assumes "siteConfig s = None" and "ok st" and "wb_content w = Some sh'"
  shows "cached_config (saveSettings f (Response st (Some w)) s)
           = Some (gather_settings f empty_config, sh')"
    and "last (requests (saveSettings f (Response st (Some w)) s))
           = save_request (github s) ''content/site-config.json''
               (Settings (gather_settings f empty_config)) None"
    and "toast (saveSettings f (Response st (Some w)) s)
           = Some (ToastSuccess ''Settings saved successfully!'')"
    and "syncStatus (saveSettings f (Response st (Some w)) s) = Synced"
  using assms
  by (simp_all add: saveSettings_def saveContent_def Let_def case_prod_beta state_defs
        cached_config_def)

text \<open>
  The paths that treat a missing document as an empty one. A 404 is the value \<open>null\<close>
  of \<open>fetchContent\<close>, returned without an error and without a console line.
  \<open>loadAllContent\<close> stores it as an empty entry and still ends \<open>synced\<close>, with no
  toast. A later save of a record (\<open>saveNews\<close>, \<open>saveProject\<close>, \<open>saveEvent\<close>)
  starts from the empty list, sends the one-record document with no revision, and on
  success caches it; \<open>saveSettings\<close> starts from the empty object.
\<close>

theorem not_found_is_empty_document:
  "fetchContent_try path (Response 404 b) = Inr None \<and>
   fetchContent path (Response 404 b) s = (None, send (fetch_request (github s) path) s) \<and>
   (r_config rs = Response 404 b \<or> r_news rs = Response 404 b \<or>
    r_projects rs = Response 404 b \<or> r_events rs = Response 404 b \<longrightarrow>
      syncStatus (loadAllContent rs s) = Synced \<and> toast (loadAllContent rs s) = toast s) \<and>
   (r_config rs = Response 404 b \<longrightarrow> cached_config (loadAllContent rs s) = None) \<and>
   (r_news rs = Response 404 b \<longrightarrow> cached_collection News (loadAllContent rs s) = None) \<and>
   (r_projects rs = Response 404 b \<longrightarrow> cached_collection Project (loadAllContent rs s) = None) \<and>
   (r_events rs = Response 404 b \<longrightarrow> cached_collection Event (loadAllContent rs s) = None) \<and>
   (entry_of k s = None \<and> ok st \<and> wb_content w = Some sh' \<longrightarrow>
      cached_collection k (save_record k formId inputs now (Response st (Some w)) s)
        = Some (Some [inputs\<lparr>item_id := (if formId = [] then id_prefix k @ string_of_nat now
                                             else formId)\<rparr>], sh') \<and>
      last (requests (save_record k formId inputs now (Response st (Some w)) s))
        = save_request (github s) (doc_path k)
            (Collection (doc_key k)
               [inputs\<lparr>item_id := (if formId = [] then id_prefix k @ string_of_nat now
                                      else formId)\<rparr>]) None \<and>
      toast (save_record k formId inputs now (Response st (Some w)) s)
        = Some (ToastSuccess (saved_message k)) \<and>
      syncStatus (save_record k formId inputs now (Response st (Some w)) s) = Synced) \<and>
   (siteConfig s = None \<and> ok st \<and> wb_content w = Some sh' \<longrightarrow>
      cached_config (saveSettings f (Response st (Some w)) s)
        = Some (gather_settings f empty_config, sh') \<and>
      last (requests (saveSettings f (Response st (Some w)) s))
        = save_request (github s) ''content/site-config.json''
            (Settings (gather_settings f empty_config)) None \<and>
      toast (saveSettings f (Response st (Some w)) s)
        = Some (ToastSuccess ''Settings saved successfully!'') \<and>
      syncStatus (saveSettings f (Response st (Some w)) s) = Synced)"
proof -
  have read: "fetchContent_try path (Response 404 b) = Inr None"
    by (simp add: fetchContent_try_def ok_def)
  then have fetch:
    "fetchContent path (Response 404 b) s = (None, send (fetch_request (github s) path) s)"
    by (simp add: fetchContent_def)
  show ?thesis
    using read fetch loadAllContent_status[of rs s] loadAllContent_missing[of rs b s]
      save_record_created[of k s st w sh' formId inputs now]
      saveSettings_created[of s st w sh' f]
    by blast
qed

theorem not_found_is_empty_document_witness:
  "fst (fetchContent ''content/news.json'' missing fresh_state) = None \<and>
   cached_collection News (loadAllContent all_missing fresh_state) = None \<and>
   syncStatus (loadAllContent all_missing fresh_state) = Synced \<and>
   cached_collection News
       (saveNews [] (mk_item [] ''Cleanup Day'' 100) 17 (written_reply ''r1'') fresh_state)
     = Some (Some [mk_item ''news-17'' ''Cleanup Day'' 100], Some ''r1'') \<and>
   cached_config (saveSettings example_form (written_reply ''r1'') fresh_state)
     = Some (gather_settings example_form empty_config, Some ''r1'')"
proof -
  note inst = not_found_is_empty_document
    [of "''content/news.json''" None fresh_state all_missing News 200
        "\<lparr>wb_message = None, wb_content = Some (Some ''r1'')\<rparr>" "Some ''r1''"
        "[]" "mk_item [] ''Cleanup Day'' 100" 17 example_form]
  have h1: "r_news all_missing = Response 404 None"
    by (simp add: all_missing_def missing_def)
  have h2: "entry_of News fresh_state = None" "siteConfig fresh_state = None"
    by (simp_all add: fresh_state_def)
  have h3: "ok 200" by (simp add: ok_def)
  have h4: "wb_content \<lparr>wb_message = None, wb_content = Some (Some ''r1'')\<rparr> = Some (Some ''r1'')"
    by simp
  have a: "fst (fetchContent ''content/news.json'' missing fresh_state) = None"
    using inst by (simp add: missing_def)
  have b: "cached_collection News (loadAllContent all_missing fresh_state) = None"
    "syncStatus (loadAllContent all_missing fresh_state) = Synced"
    using inst h1 by blast+
  have c: "cached_collection News
             (saveNews [] (mk_item [] ''Cleanup Day'' 100) 17 (written_reply ''r1'') fresh_state)
           = Some (Some [mk_item ''news-17'' ''Cleanup Day'' 100], Some ''r1'')"
    using inst h2 h3 h4
    by (simp add: saveNews_def written_reply_def mk_item_def digit_def string_of_nat.simps)
  have d: "cached_config (saveSettings example_form (written_reply ''r1'') fresh_state)
           = Some (gather_settings example_form empty_config, Some ''r1'')"
    using inst h2 h3 h4 by (simp add: written_reply_def)
  from a b c d show ?thesis by blast
qed

text \<open>
  \<open>executeDelete\<close> reads \<open>state.content.news.data.articles\<close> without the guard that
  \<open>saveNews\<close> has: on an entry that is \<open>null\<close> the read is a \<open>TypeError\<close>, caught and
  reported, and nothing is sent.
\<close>

lemma executeDelete_on_missing_document:
  "news s = None \<Longrightarrow>
     executeDelete ''news'' i r s
       = report ''Error deleting item: '' TypeError (updateSyncStatus Saving s)"
  by (simp add: executeDelete_def delete_from_def Let_def updateSyncStatus_def)

lemma news_of_missing:
  "r_news rs = Response 404 b \<Longrightarrow> news (loadAllContent rs s) = None"
  using loadAllContent_missing(2)[of rs b s] by (simp add: cached_collection_def)

text \<open>
  C5. Every caller treats a document the store reports as missing as an empty document
  and never as an error. This fails for \<open>executeDelete\<close>. A page that shows the card of
  \<open>news-1\<close> loads again, and this time every read is answered with 404: the news
  entry is \<open>null\<close> from the moment the reads are stored, while the card stays on the
  page until the grids are drawn again. The delete button of the card then ends in the
  error toast and the error status, with no request sent, where \<open>saveNews\<close> on the
  same cache creates the document.
\<close>

theorem executeDelete_fails_on_missing_document:
  "cached_collection News (loadAllContent all_missing loaded_state) = None \<and>
   toast (executeDelete ''news'' ''news-1'' (written_reply ''r1'')
            (loadAllContent all_missing loaded_state))
     = Some (ToastError ''Error deleting item: '' TypeError) \<and>
   syncStatus (executeDelete ''news'' ''news-1'' (written_reply ''r1'')
                 (loadAllContent all_missing loaded_state)) = SyncError \<and>
   requests (executeDelete ''news'' ''news-1'' (written_reply ''r1'')
               (loadAllContent all_missing loaded_state))
     = requests (loadAllContent all_missing loaded_state) \<and>
   toast (saveNews [] (mk_item [] ''Tree Planting'' 200) 17 (written_reply ''r1'')
            (loadAllContent all_missing loaded_state))
     = Some (ToastSuccess ''Article saved successfully!'')"
proof -
  let ?s = "loadAllContent all_missing loaded_state"
  have answered: "r_news all_missing = Response 404 None"
    by (simp add: all_missing_def missing_def)
  then have null: "news ?s = None"
    by (rule news_of_missing)
  then have cached: "cached_collection News ?s = None"
    by (simp add: cached_collection_def)
  have deleted: "executeDelete ''news'' ''news-1'' (written_reply ''r1'') ?s
                   = report ''Error deleting item: '' TypeError (updateSyncStatus Saving ?s)"
    using null by (rule executeDelete_on_missing_document)
  have saved: "toast (saveNews [] (mk_item [] ''Tree Planting'' 200) 17 (written_reply ''r1'') ?s)
                 = Some (ToastSuccess ''Article saved successfully!'')"
    using save_record_created(3)
            [of News ?s 200 "\<lparr>wb_message = None, wb_content = Some (Some ''r1'')\<rparr>"
                "Some ''r1''" "[]" "mk_item [] ''Tree Planting'' 200" 17] null
    by (simp add: saveNews_def written_reply_def ok_def)
  show ?thesis
    unfolding deleted
    using cached saved by (simp add: report_def updateSyncStatus_def showToast_def)
qed

section \<open>Logout and the next login\<close>

text \<open>
  C7, as the claim states it: after logout the cached documents are discarded. The
  news document loaded before the logout is still in the cache after it.
\<close>

theorem logout_keeps_documents:
  "cached_collection News (logout loaded_state)
     = Some (Some [mk_item ''news-1'' ''Cleanup Day'' 100], Some ''abc'')"
  by (simp add: logout_def cached_collection_def loaded_state_def fresh_state_def)

lemma login_loads:
  assumes "ok st"
  shows "handleLogin u r t b (Response st body) rs s =
           loadAllContent rs
             (s\<lparr>loginError := None,
                requests := requests s @ [login_request (trim u) (trim r) (trim t)],
                github := \<lparr>username = trim u, repo = trim r, token = trim t,
                           branch = (if trim b = [] then ''main'' else trim b)\<rparr>,
                localStorage := Some \<lparr>username = trim u, repo = trim r, token = trim t,
                           branch = (if trim b = [] then ''main'' else trim b)\<rparr>,
                screen := Dashboard\<rparr>)"
  using assms by (simp add: handleLogin_def showDashboard_def send_def Let_def)

text \<open>
  C7, amended. \<open>logout\<close> removes the stored credentials, resets the credentials in
  memory and shows the login screen; it leaves every cached document as it was. The
  next successful login stores the new credentials and runs \<open>loadAllContent\<close>, after
  which each of the four entries holds what its fresh read returned.
\<close>

theorem logout_clears_credentials_only:
  "localStorage (logout s) = None \<and>
   github (logout s) = \<lparr>username = [], repo = [], token = [], branch = ''main''\<rparr> \<and>
   screen (logout s) = LoginScreen \<and>
   cached_config (logout s) = cached_config s \<and>
   (\<forall>k. cached_collection k (logout s) = cached_collection k s) \<and>
   (ok st \<longrightarrow>
      cached_config (handleLogin u r t b (Response st body) rs (logout s)) =
        map_option (\<lambda>(d, sh). (doc_config d, sh))
          (fst (fetchContent ''content/site-config.json'' (r_config rs) s)) \<and>
      cached_collection News (handleLogin u r t b (Response st body) rs (logout s)) =
        map_option (\<lambda>(d, sh). (doc_articles d, sh))
          (fst (fetchContent ''content/news.json'' (r_news rs) s)) \<and>
      cached_collection Project (handleLogin u r t b (Response st body) rs (logout s)) =
        map_option (\<lambda>(d, sh). (doc_projects d, sh))
          (fst (fetchContent ''content/projects.json'' (r_projects rs) s)) \<and>
      cached_collection Event (handleLogin u r t b (Response st body) rs (logout s)) =
        map_option (\<lambda>(d, sh). (doc_events d, sh))
          (fst (fetchContent ''content/events.json'' (r_events rs) s)) \<and>
      github (handleLogin u r t b (Response st body) rs (logout s)) =
        \<lparr>username = trim u, repo = trim r, token = trim t,
         branch = (if trim b = [] then ''main'' else trim b)\<rparr> \<and>
      localStorage (handleLogin u r t b (Response st body) rs (logout s)) =
        Some \<lparr>username = trim u, repo = trim r, token = trim t,
              branch = (if trim b = [] then ''main'' else trim b)\<rparr>)"
proof -
  have out: "localStorage (logout s) = None"
    "github (logout s) = \<lparr>username = [], repo = [], token = [], branch = ''main''\<rparr>"
    "screen (logout s) = LoginScreen"
    "cached_config (logout s) = cached_config s"
    "\<forall>k. cached_collection k (logout s) = cached_collection k s"
    by (auto simp: logout_def cached_config_def cached_collection_def)
      (case_tac k; simp)
  have "ok st \<longrightarrow> ?thesis"
    using out
    by (simp add: login_loads loadAllContent_status loadAllContent_config loadAllContent_news
          loadAllContent_projects loadAllContent_events fetchContent_fst)
  with out show ?thesis by blast
qed


theorem logout_clears_credentials_only_witness:
  "ok 200 \<and>
   cached_collection News
       (handleLogin ''sote'' ''site'' ''t0k3n'' [] (Response 200 None) failing_load
          (logout loaded_state)) = None \<and>
   localStorage (logout loaded_state) = None"
proof -
  note inst = logout_clears_credentials_only
    [of loaded_state 200 "''sote''" "''site''" "''t0k3n''" "[]" None failing_load]
  have h: "ok 200" by (simp add: ok_def)
  have none: "fst (fetchContent ''content/news.json'' (r_news failing_load) loaded_state) = None"
    by (simp add: fetchContent_fst fetchContent_try_def failing_load_def ok_def)
  from inst h
  have "cached_collection News
          (handleLogin ''sote'' ''site'' ''t0k3n'' [] (Response 200 None) failing_load
             (logout loaded_state))
        = map_option (\<lambda>(d, sh). (doc_articles d, sh))
            (fst (fetchContent ''content/news.json'' (r_news failing_load) loaded_state))"
    by blast
  with none have "cached_collection News
          (handleLogin ''sote'' ''site'' ''t0k3n'' [] (Response 200 None) failing_load
             (logout loaded_state)) = None"
    by simp
  moreover from inst have "localStorage (logout loaded_state) = None" by blast
  ultimately show ?thesis using h by blast
qed

section \<open>Display order on the public site\<close>



















end
